theory Spec2Isabelle
  imports Main "HOL-Library.Char_ord" "HOL-Library.List_Lexorder"
    "HOL-Library.Product_Lexorder" "HOL-Library.Multiset"
begin

section \<open>Strings, paths and timestamps\<close>

text \<open>
  File names are strings of 8-bit characters. \<open>str.lower()\<close> is modelled on the ASCII
  letters; every other character is left as it is.
\<close>

definition char_lower :: "char \<Rightarrow> char" where
  "char_lower c =
     (case map_of (zip ''ABCDEFGHIJKLMNOPQRSTUVWXYZ'' ''abcdefghijklmnopqrstuvwxyz'') c of
        Some l \<Rightarrow> l
      | None \<Rightarrow> c)"

definition lower :: "string \<Rightarrow> string" where
  "lower s = map char_lower s"

text \<open>
  \<open>Path.suffix\<close> of pathlib, on the final component \<open>nm\<close> of a path: with
  \<open>i = nm.rfind('.')\<close> it is \<open>nm[i:]\<close> when \<open>0 < i < len(nm) - 1\<close> and the empty string
  otherwise. \<open>ext\<close> below is the text after the last dot.
\<close>

definition suffix :: "string \<Rightarrow> string" where
  "suffix nm =
     (let ext = rev (takeWhile (\<lambda>c. c \<noteq> CHR ''.'') (rev nm)) in
      if CHR ''.'' \<in> set nm \<and> ext \<noteq> [] \<and> length ext + 1 < length nm
      then CHR ''.'' # ext else [])"

text \<open>\<open>str(i)\<close> of a non-negative integer, as the f-string of the target name prints it.\<close>

fun str_nat :: "nat \<Rightarrow> string" where
  "str_nat n =
     (if n < 10 then [''0123456789'' ! n]
      else str_nat (n div 10) @ [''0123456789'' ! (n mod 10)])"

declare str_nat.simps [simp del]

text \<open>
  A \<open>datetime\<close> is the tuple (year, month, day, hour, minute, second, microsecond); the
  order of naive datetimes is the lexicographic order of that tuple. Timestamps carrying
  a UTC offset are outside the model.
\<close>

type_synonym datetime = "nat \<times> nat \<times> nat \<times> nat \<times> nat \<times> nat \<times> nat"

definition zero_pad :: "nat \<Rightarrow> nat \<Rightarrow> string" where
  "zero_pad w n = replicate (w - length (str_nat n)) CHR ''0'' @ str_nat n"

text \<open>\<open>date_taken.strftime("%Y-%m-%d")\<close>.\<close>

definition strftime_ymd :: "datetime \<Rightarrow> string" where
  "strftime_ymd dt =
     (case dt of (y, m, d, rest) \<Rightarrow> zero_pad 4 y @ ''-'' @ zero_pad 2 m @ ''-'' @ zero_pad 2 d)"

text \<open>
  \<open>str.replace(old, new)\<close> for a non-empty \<open>old\<close>: every non-overlapping occurrence,
  left to right.
\<close>

function str_replace :: "string \<Rightarrow> string \<Rightarrow> string \<Rightarrow> string" where
  "str_replace old new s =
     (if s = [] \<or> old = [] then s
      else if take (length old) s = old
        then new @ str_replace old new (drop (length old) s)
        else hd s # str_replace old new (tl s))"
  by pat_completeness auto
termination
  by (relation "measure (\<lambda>(old, new, s). length s)") (auto simp: neq_Nil_conv)

declare str_replace.simps [simp del]

section \<open>Files and directories\<close>

text \<open>
  What \<open>os.stat\<close> reports for a file is kept with its bytes; the three times are the
  values of \<open>datetime.fromtimestamp\<close> on \<open>st_ctime\<close>, \<open>st_mtime\<close> and \<open>st_atime\<close>.
\<close>

record file_data =
  content :: string
  creation_time :: datetime
  modified_time :: datetime
  access_time :: datetime

text \<open>A directory is the list of its entries, in the order the filesystem lists them.\<close>

datatype entry = File string file_data | Dir string "entry list"

fun entry_name :: "entry \<Rightarrow> string" where
  "entry_name (File n d) = n"
| "entry_name (Dir n es) = n"

fun set_name :: "string \<Rightarrow> entry \<Rightarrow> entry" where
  "set_name n' (File n d) = File n' d"
| "set_name n' (Dir n es) = Dir n' es"

text \<open>A path is the list of its components below the directory being processed.\<close>

type_synonym path = "string list"

definition path_name :: "path \<Rightarrow> string" where
  "path_name p = last p"

definition iterdir :: "entry list \<Rightarrow> (path \<times> entry) list" where
  "iterdir es = map (\<lambda>e. ([entry_name e], e)) es"

fun rglob_entry :: "entry \<Rightarrow> (path \<times> entry) list" where
  "rglob_entry (File n d) = [([n], File n d)]"
| "rglob_entry (Dir n es) =
     ([n], Dir n es) # map (\<lambda>(p, e). (n # p, e)) (concat (map rglob_entry es))"

definition rglob :: "entry list \<Rightarrow> (path \<times> entry) list" where
  "rglob es = concat (map rglob_entry es)"

definition image_extensions :: "string list" where
  "image_extensions = [''.jpg'', ''.jpeg'', ''.png'', ''.tiff'', ''.tif'', ''.bmp'']"

definition video_extensions :: "string list" where
  "video_extensions = [''.mov'', ''.mp4'', ''.avi'', ''.mkv'', ''.m4v'', ''.3gp'', ''.wmv'']"

definition media_extensions :: "string list" where
  "media_extensions =
     [''.jpg'', ''.jpeg'', ''.png'', ''.tiff'', ''.tif'', ''.bmp'', ''.heic'', ''.heif'', ''.dng'',
      ''.mov'', ''.mp4'', ''.avi'', ''.mkv'', ''.m4v'', ''.3gp'', ''.wmv'']"

text \<open>
  A discovered file is its path together with the file found there: nothing is renamed
  between discovery and the reading of the dates.
\<close>

type_synonym media_file = "path \<times> file_data"

definition is_media :: "path \<times> entry \<Rightarrow> media_file option" where
  "is_media pe =
     (case snd pe of
        File n d \<Rightarrow>
          if lower (suffix (path_name (fst pe))) \<in> set media_extensions
          then Some (fst pe, d) else None
      | Dir n es \<Rightarrow> None)"

definition find_media_files :: "entry list \<Rightarrow> bool \<Rightarrow> media_file list" where
  "find_media_files directory recursive =
     (if recursive then List.map_filter is_media (rglob directory)
      else List.map_filter is_media (iterdir directory))"

section \<open>Metadata extractors\<close>

text \<open>
  The decoding libraries and the probe are collaborators of the program: the model takes
  what they answer on a file's bytes as parameters. \<open>strptime\<close> and \<open>fromisoformat\<close>
  return \<open>None\<close> where Python raises \<open>ValueError\<close>; \<open>TAGS\<close> is the table of
  \<open>PIL.ExifTags\<close>; \<open>rename_raises\<close> tells where the operating system refuses a rename.
\<close>

datatype exif_value = Str string | NotStr

type_synonym tag_dir = "(nat \<times> exif_value) list"

datatype ifd_access = NoGetIfd | IfdRaises | Ifd tag_dir

datatype exif = NoExif | Exif tag_dir ifd_access

datatype pil_result = OpenRaises | Opened exif

datatype heif_result = HeifMissing | Heif pil_result

datatype exifread_result = ExifreadMissing | ReadRaises | ExifTags "(string \<times> string) list"

record probe_doc =
  format_tags :: "(string \<times> string) list option"
  streams :: "(string \<times> string) list option list option"

datatype probe_result = TimeoutExpired | RunRaises | Completed int "probe_doc option"

record pylib =
  TAGS :: "nat \<Rightarrow> string option"
  strptime :: "string \<Rightarrow> string \<Rightarrow> datetime option"
  fromisoformat :: "string \<Rightarrow> datetime option"
  Image_open :: "string \<Rightarrow> pil_result"
  heif_open :: "string \<Rightarrow> heif_result"
  exifread_process :: "string \<Rightarrow> exifread_result"
  ffprobe :: "string \<Rightarrow> probe_result"
  rename_raises :: "string \<Rightarrow> string \<Rightarrow> bool"

subsection \<open>Video\<close>

definition parse_iso :: "pylib \<Rightarrow> string \<Rightarrow> datetime option" where
  "parse_iso L date_str =
     (let date_str = str_replace ''Z'' ''+00:00'' date_str in
      if CHR ''.'' \<in> set date_str
      then fromisoformat L (takeWhile (\<lambda>c. c \<noteq> CHR ''.'') date_str)
      else fromisoformat L (str_replace ''+00:00'' [] date_str))"

definition parse_format_tag :: "pylib \<Rightarrow> string \<Rightarrow> datetime option" where
  "parse_format_tag L date_str =
     (if CHR ''T'' \<in> set date_str then parse_iso L date_str
      else (case strptime L date_str ''%Y-%m-%d %H:%M:%S'' of
              Some d \<Rightarrow> Some d
            | None \<Rightarrow> strptime L date_str ''%Y:%m:%d %H:%M:%S''))"

definition parse_stream_tag :: "pylib \<Rightarrow> string \<Rightarrow> datetime option" where
  "parse_stream_tag L date_str =
     (if CHR ''T'' \<in> set date_str then parse_iso L date_str else None)"

fun search_fields ::
  "(string \<Rightarrow> datetime option) \<Rightarrow> (string \<times> string) list \<Rightarrow> string list \<Rightarrow> datetime option"
where
  "search_fields parse tags [] = None"
| "search_fields parse tags (field # others) =
     (case map_of tags field of
        None \<Rightarrow> search_fields parse tags others
      | Some date_str \<Rightarrow>
          (case parse date_str of
             Some d \<Rightarrow> Some d
           | None \<Rightarrow> search_fields parse tags others))"

fun search_streams :: "pylib \<Rightarrow> (string \<times> string) list option list \<Rightarrow> datetime option" where
  "search_streams L [] = None"
| "search_streams L (stream # rest) =
     (case stream of
        None \<Rightarrow> search_streams L rest
      | Some tags \<Rightarrow>
          (case search_fields (parse_stream_tag L) tags [''creation_time'', ''date''] of
             Some d \<Rightarrow> Some d
           | None \<Rightarrow> search_streams L rest))"

definition date_fields :: "string list" where
  "date_fields = [''creation_time'', ''date'', ''creation_date'', ''com.apple.quicktime.creationdate'']"

definition get_video_date_taken :: "pylib \<Rightarrow> string \<Rightarrow> datetime option" where
  "get_video_date_taken L video_path =
     (case ffprobe L video_path of
        TimeoutExpired \<Rightarrow> None
      | RunRaises \<Rightarrow> None
      | Completed returncode out \<Rightarrow>
          if returncode \<noteq> 0 then None
          else (case out of
                  None \<Rightarrow> None
                | Some metadata \<Rightarrow>
                    (case (case format_tags metadata of
                             None \<Rightarrow> None
                           | Some tags \<Rightarrow> search_fields (parse_format_tag L) tags date_fields) of
                       Some d \<Rightarrow> Some d
                     | None \<Rightarrow>
                         (case streams metadata of
                            None \<Rightarrow> None
                          | Some ss \<Rightarrow> search_streams L ss))))"

subsection \<open>Images\<close>

definition is_date_tag :: "pylib \<Rightarrow> nat \<Rightarrow> bool" where
  "is_date_tag L tag_id =
     (case TAGS L tag_id of
        None \<Rightarrow> False
      | Some tag \<Rightarrow> tag \<in> set [''DateTime'', ''DateTimeOriginal'', ''DateTimeDigitized''])"

definition parse_exif_value :: "pylib \<Rightarrow> exif_value \<Rightarrow> datetime option" where
  "parse_exif_value L v =
     (case v of Str s \<Rightarrow> strptime L s ''%Y:%m:%d %H:%M:%S'' | NotStr \<Rightarrow> None)"

fun scan_tags :: "pylib \<Rightarrow> tag_dir \<Rightarrow> datetime option" where
  "scan_tags L [] = None"
| "scan_tags L ((tag_id, v) # rest) =
     (if is_date_tag L tag_id
      then (case parse_exif_value L v of
              Some d \<Rightarrow> Some d
            | None \<Rightarrow> scan_tags L rest)
      else scan_tags L rest)"

definition exif_date_taken :: "pylib \<Rightarrow> exif \<Rightarrow> datetime option" where
  "exif_date_taken L exifdata =
     (case exifdata of
        NoExif \<Rightarrow> None
      | Exif primary ifd \<Rightarrow>
          (case scan_tags L primary of
             Some d \<Rightarrow> Some d
           | None \<Rightarrow>
               (case ifd of
                  NoGetIfd \<Rightarrow> None
                | IfdRaises \<Rightarrow> None
                | Ifd exif_ifd \<Rightarrow> scan_tags L exif_ifd)))"

definition get_image_date_taken :: "pylib \<Rightarrow> string \<Rightarrow> datetime option" where
  "get_image_date_taken L image_path =
     (case Image_open L image_path of
        OpenRaises \<Rightarrow> None
      | Opened exifdata \<Rightarrow> exif_date_taken L exifdata)"

definition get_heic_date_taken :: "pylib \<Rightarrow> string \<Rightarrow> datetime option" where
  "get_heic_date_taken L image_path =
     (case heif_open L image_path of
        HeifMissing \<Rightarrow> None
      | Heif r \<Rightarrow>
          (case r of
             OpenRaises \<Rightarrow> None
           | Opened exifdata \<Rightarrow> exif_date_taken L exifdata))"

definition dng_date_tags :: "string list" where
  "dng_date_tags = [''EXIF DateTimeOriginal'', ''EXIF DateTimeDigitized'', ''Image DateTime'']"

definition get_dng_date_taken :: "pylib \<Rightarrow> string \<Rightarrow> datetime option" where
  "get_dng_date_taken L image_path =
     (case exifread_process L image_path of
        ExifreadMissing \<Rightarrow> None
      | ReadRaises \<Rightarrow> None
      | ExifTags tags \<Rightarrow>
          search_fields (\<lambda>date_str. strptime L date_str ''%Y:%m:%d %H:%M:%S'') tags dng_date_tags)"

subsection \<open>Date resolution\<close>

definition get_date_taken :: "pylib \<Rightarrow> media_file \<Rightarrow> datetime option" where
  "get_date_taken L file_path =
     (let file_ext = lower (suffix (path_name (fst file_path)));
          bytes = content (snd file_path) in
      if file_ext \<in> set image_extensions then get_image_date_taken L bytes
      else if file_ext = ''.dng'' then get_dng_date_taken L bytes
      else if file_ext \<in> set [''.heic'', ''.heif''] then get_heic_date_taken L bytes
      else if file_ext \<in> set video_extensions then get_video_date_taken L bytes
      else None)"

definition get_best_fallback_date :: "media_file \<Rightarrow> datetime" where
  "get_best_fallback_date file_path =
     (let st = snd file_path in
      if creation_time st > modified_time st then modified_time st
      else min (creation_time st) (min (modified_time st) (access_time st)))"

text \<open>Lines 399 to 403 of the loop of \<open>rename_media_in_directory\<close>.\<close>

definition resolve_date :: "pylib \<Rightarrow> media_file \<Rightarrow> datetime" where
  "resolve_date L file_path =
     (case get_date_taken L file_path of
        None \<Rightarrow> get_best_fallback_date file_path
      | Some date_taken \<Rightarrow> date_taken)"

section \<open>Grouping, sequencing and renaming\<close>

text \<open>The lines the loop prints for a file: its name, the computed name and what was done.\<close>

datatype status = AlreadyNamed | TargetExists | DryRun | Renamed | RenameError

type_synonym log_line = "string \<times> string \<times> status"

text \<open>\<open>files_by_date[date_str].append(item)\<close> on an insertion-ordered dictionary of lists.\<close>

fun append_to :: "'k \<Rightarrow> 'v \<Rightarrow> ('k \<times> 'v list) list \<Rightarrow> ('k \<times> 'v list) list" where
  "append_to k v [] = [(k, [v])]"
| "append_to k v ((k', vs) # rest) =
     (if k = k' then (k', vs @ [v]) # rest else (k', vs) # append_to k v rest)"

definition group_by_date :: "pylib \<Rightarrow> media_file list \<Rightarrow> (string \<times> (media_file \<times> datetime) list) list"
where
  "group_by_date L media_files =
     fold (\<lambda>file_path files_by_date.
             let date_taken = resolve_date L file_path in
             append_to (strftime_ymd date_taken) (file_path, date_taken) files_by_date)
       media_files []"

definition new_name_for :: "string \<Rightarrow> nat \<Rightarrow> string \<Rightarrow> string" where
  "new_name_for date_str i file_name =
     (let file_ext = lower (suffix file_name) in
      if file_ext \<in> set video_extensions
      then date_str @ '' - Phone Videos ('' @ str_nat i @ '')'' @ file_ext
      else date_str @ '' - Phone Photos ('' @ str_nat i @ '')'' @ file_ext)"

definition path_exists :: "entry list \<Rightarrow> string \<Rightarrow> bool" where
  "path_exists es n = (n \<in> set (map entry_name es))"

text \<open>
  \<open>Path.rename\<close> inside one directory: the entry called \<open>old\<close> takes the name \<open>new\<close>, and
  an entry that had that name before is replaced, as \<open>rename(2)\<close> does.
\<close>

definition fs_rename :: "string \<Rightarrow> string \<Rightarrow> entry list \<Rightarrow> entry list" where
  "fs_rename old new es =
     map (\<lambda>e. if entry_name e = old then set_name new e else e)
       (filter (\<lambda>e. entry_name e \<noteq> new \<or> entry_name e = old) es)"

type_synonym run_state = "entry list \<times> nat \<times> log_line list"

text \<open>The body of the inner loop, for the file numbered \<open>i\<close> of the group \<open>date_str\<close>.\<close>

definition rename_one ::
  "pylib \<Rightarrow> bool \<Rightarrow> string \<Rightarrow> nat \<times> media_file \<times> datetime \<Rightarrow> run_state \<Rightarrow> run_state"
where
  "rename_one L dry_run date_str item st =
     (case st of (es, total_renamed, printed) \<Rightarrow>
      let i = fst item;
          file_name = path_name (fst (fst (snd item)));
          new_name = new_name_for date_str i file_name in
      if file_name = new_name then (es, total_renamed, printed @ [(file_name, new_name, AlreadyNamed)])
      else if path_exists es new_name
        then (es, total_renamed, printed @ [(file_name, new_name, TargetExists)])
      else if dry_run then (es, total_renamed, printed @ [(file_name, new_name, DryRun)])
      else if rename_raises L file_name new_name
        then (es, total_renamed, printed @ [(file_name, new_name, RenameError)])
      else (fs_rename file_name new_name es, total_renamed + 1,
            printed @ [(file_name, new_name, Renamed)]))"

text \<open>\<open>enumerate(file_list, 1)\<close>.\<close>

definition enumerate1 :: "'a list \<Rightarrow> (nat \<times> 'a) list" where
  "enumerate1 xs = zip [1 ..< Suc (length xs)] xs"

text \<open>
  One iteration of the outer loop: the group is sorted by the full timestamp with the
  stable \<open>list.sort\<close>, its header line is printed, and its files are handled in order.
\<close>

type_synonym group_log = "string \<times> log_line list"

definition rename_group ::
  "pylib \<Rightarrow> bool \<Rightarrow> string \<times> (media_file \<times> datetime) list \<Rightarrow>
   entry list \<times> nat \<times> group_log list \<Rightarrow> entry list \<times> nat \<times> group_log list"
where
  "rename_group L dry_run grp st =
     (case st of (es, total_renamed, out) \<Rightarrow>
      let date_str = fst grp;
          file_list = sort_key snd (snd grp);
          (es', total_renamed', printed) =
            fold (rename_one L dry_run date_str) (enumerate1 file_list) (es, total_renamed, [])
      in (es', total_renamed', out @ [(date_str, printed)]))"

record run_result =
  directory_after :: "entry list option"
  total_files :: nat
  total_renamed :: nat
  printed_lines :: "group_log list"

text \<open>
  \<open>rename_media_in_directory\<close>. The directory is \<open>None\<close> when the path does not exist.
\<close>

definition rename_media_in_directory ::
  "pylib \<Rightarrow> entry list option \<Rightarrow> bool \<Rightarrow> bool \<Rightarrow> run_result"
where
  "rename_media_in_directory L directory dry_run recursive =
     (case directory of
        None \<Rightarrow> \<lparr>directory_after = None, total_files = 0, total_renamed = 0, printed_lines = []\<rparr>
      | Some es \<Rightarrow>
          let media_files = find_media_files es False in
          if media_files = []
          then \<lparr>directory_after = Some es, total_files = 0, total_renamed = 0, printed_lines = []\<rparr>
          else
            let files_by_date = group_by_date L media_files;
                (es', renamed, out) =
                  fold (rename_group L dry_run) (sort_key fst files_by_date) (es, 0, [])
            in \<lparr>directory_after = Some es',
                total_files = sum_list (map (\<lambda>g. length (snd g)) files_by_date),
                total_renamed = renamed, printed_lines = out\<rparr>)"

section \<open>Notions used in the statements\<close>







section \<open>Sample inputs\<close>

text \<open>
  Stand-ins for the collaborators, in the way the tests of the repository mock them: the
  EXIF reader finds one \<open>DateTime\<close> tag holding the bytes of the file, and fails on an
  empty file; no other decoder is installed.
\<close>

definition sample_lib :: pylib where
  "sample_lib =
     \<lparr>TAGS = (\<lambda>n. if n = 306 then Some ''DateTime''
                  else if n = 36867 then Some ''DateTimeOriginal'' else None),
      strptime = (\<lambda>v f. if f = ''%Y:%m:%d %H:%M:%S'' then
         map_of [(''2023:01:15 08:00:00'', (2023, 1, 15, 8, 0, 0, 0)),
                 (''2023:01:15 09:00:00'', (2023, 1, 15, 9, 0, 0, 0)),
                 (''2023:02:01 09:00:00'', (2023, 2, 1, 9, 0, 0, 0))] v else None),
      fromisoformat = (\<lambda>s. None),
      Image_open = (\<lambda>bytes. if bytes = [] then OpenRaises
                             else Opened (Exif [(306, Str bytes)] NoGetIfd)),
      heif_open = (\<lambda>bytes. HeifMissing),
      exifread_process = (\<lambda>bytes. ExifreadMissing),
      ffprobe = (\<lambda>bytes. RunRaises),
      rename_raises = (\<lambda>old new. False)\<rparr>"

definition sample_file :: "string \<Rightarrow> file_data" where
  "sample_file bytes =
     \<lparr>content = bytes, creation_time = (2024, 3, 2, 0, 0, 0, 0),
      modified_time = (2024, 3, 1, 0, 0, 0, 0), access_time = (2024, 3, 3, 0, 0, 0, 0)\<rparr>"



text \<open>
  Two directories with a leftover target name. In \<open>collision_dir\<close> the file that holds
  the name was taken on another day; in \<open>leftover_dir\<close> on the same day, an hour later.
\<close>

definition collision_dir :: "entry list" where
  "collision_dir =
     [File ''IMG_001.jpg'' (sample_file ''2023:01:15 08:00:00''),
      File ''2023-01-15 - Phone Photos (1).jpg'' (sample_file ''2023:02:01 09:00:00'')]"


section \<open>The EXIF, video and fallback dates\<close>






text \<open>
  C7. A probe answer whose only date is a stream tag \<open>creation_time\<close> written as
  \<open>YYYY-MM-DD HH:MM:SS\<close> yields no date, whatever the parsers accept: the stream search
  lacks the branch for the literal patterns that the container search has.
\<close>

theorem stream_tag_literal_pattern_rejected:
  "get_video_date_taken
     (L\<lparr>ffprobe := (\<lambda>bytes. Completed 0
        (Some \<lparr>format_tags = None,
               streams = Some [Some [(''creation_time'', ''2023-01-15 14:30:45'')]]\<rparr>))\<rparr>)
     video_path = None"
  by (simp add: get_video_date_taken_def parse_stream_tag_def)

text \<open>The same tag at container level is accepted.\<close>

lemma format_tag_literal_pattern_accepted:
  "strptime L ''2023-01-15 14:30:45'' ''%Y-%m-%d %H:%M:%S'' = Some d \<Longrightarrow>
   get_video_date_taken
     (L\<lparr>ffprobe := (\<lambda>bytes. Completed 0
        (Some \<lparr>format_tags = Some [(''creation_time'', ''2023-01-15 14:30:45'')],
               streams = None\<rparr>))\<rparr>)
     video_path = Some d"
  by (simp add: get_video_date_taken_def parse_format_tag_def date_fields_def)

text \<open>
  C6. When no extractor yields a date, the resolved timestamp is the modification time
  if the creation time is strictly later, and the least of creation, modification and
  access time otherwise. \<open>resolve_date\<close> is a total function: a timestamp always results.
\<close>

theorem fallback_date_resolution:
  assumes "get_date_taken L file_path = None"
  shows "resolve_date L file_path =
     (if creation_time (snd file_path) > modified_time (snd file_path)
      then modified_time (snd file_path)
      else Min {creation_time (snd file_path), modified_time (snd file_path),
                access_time (snd file_path)})"
  using assms by (simp add: resolve_date_def get_best_fallback_date_def Let_def)

theorem fallback_date_resolution_witness:
  "get_date_taken sample_lib ([''scan.png''], sample_file []) = None \<and>
   resolve_date sample_lib ([''scan.png''], sample_file []) = (2024, 3, 1, 0, 0, 0, 0)"
proof -
  have n: "get_date_taken sample_lib ([''scan.png''], sample_file []) = None"
    by (simp add: get_date_taken_def path_name_def suffix_def lower_def char_lower_def
        image_extensions_def get_image_date_taken_def sample_lib_def sample_file_def)
  show ?thesis
    using n fallback_date_resolution [OF n] by (simp add: sample_file_def)
qed

section \<open>Target names and discovery\<close>

lemma suffix_append_ext:
  assumes "pre \<noteq> []" "ext \<noteq> []" "CHR ''.'' \<notin> set ext"
  shows "suffix (pre @ CHR ''.'' # ext) = CHR ''.'' # ext"
proof -
  have "takeWhile (\<lambda>c. c \<noteq> CHR ''.'') (rev ext @ CHR ''.'' # rev pre) = rev ext"
    using assms(3)
      takeWhile_append2 [of "rev ext" "\<lambda>c. c \<noteq> CHR ''.''" "CHR ''.'' # rev pre"]
    by auto
  then show ?thesis
    using assms(1,2) by (simp add: suffix_def Let_def)
qed

lemma new_name_for_suffix:
  assumes "ext \<noteq> []" "CHR ''.'' \<notin> set ext" "lower (suffix nm) = CHR ''.'' # ext"
  shows "suffix (new_name_for date_str i nm) = CHR ''.'' # ext"
proof -
  define pre where "pre = date_str @ (if lower (suffix nm) \<in> set video_extensions
         then '' - Phone Videos ('' else '' - Phone Photos ('') @ str_nat i @ '')''"
  have "new_name_for date_str i nm = pre @ CHR ''.'' # ext"
    by (simp add: new_name_for_def Let_def assms(3) pre_def)
  moreover have "pre \<noteq> []"
    by (simp add: pre_def)
  ultimately show ?thesis
    using suffix_append_ext [OF _ assms(1,2)] by simp
qed

text \<open>
  C5, as the code has it. For a media file the extension of the computed target name is
  the extension of the source converted to lower case, leading dot included: the name is
  built from \<open>file_path.suffix.lower()\<close>.
\<close>

theorem target_extension_is_lowercased:
  assumes "lower (suffix nm) \<in> set media_extensions"
  shows "suffix (new_name_for date_str i nm) = lower (suffix nm)"
proof -
  from assms obtain ext where "lower (suffix nm) = CHR ''.'' # ext" "ext \<noteq> []" "CHR ''.'' \<notin> set ext"
    by (auto simp: media_extensions_def)
  then show ?thesis
    using new_name_for_suffix by simp
qed

lemma suffix_IMG: "suffix ''IMG_001.JPG'' = ''.JPG''"
  by (simp add: suffix_def)

lemma lower_JPG: "lower ''.JPG'' = ''.jpg''"
  by (simp add: lower_def char_lower_def)

theorem target_extension_is_lowercased_witness:
  "lower (suffix ''IMG_001.JPG'') \<in> set media_extensions \<and>
   suffix (new_name_for ''2023-01-15'' 1 ''IMG_001.JPG'') = ''.jpg''"
proof -
  have m: "lower (suffix ''IMG_001.JPG'') \<in> set media_extensions"
    by (simp add: suffix_IMG lower_JPG media_extensions_def)
  show ?thesis
    using m target_extension_is_lowercased [OF m, of "''2023-01-15''" 1]
    by (simp add: suffix_IMG lower_JPG)
qed

text \<open>The case of the extension is not preserved: \<open>.JPG\<close> becomes \<open>.jpg\<close>.\<close>

theorem extension_case_not_preserved:
  "suffix (new_name_for ''2023-01-15'' 1 ''IMG_001.JPG'') \<noteq> suffix ''IMG_001.JPG''"
proof -
  have "new_name_for ''2023-01-15'' 1 ''IMG_001.JPG'' = ''2023-01-15 - Phone Photos (1).jpg''"
    by (simp add: new_name_for_def suffix_IMG lower_JPG video_extensions_def str_nat.simps)
  then show ?thesis
    by (simp add: suffix_def suffix_IMG)
qed



text \<open>Recursive discovery does look below subdirectories; the per-directory run never asks for it.\<close>

lemma recursive_discovery_sees_subdirectories:
  "find_media_files [Dir ''sub'' [File ''a.jpg'' d]] True = [([''sub'', ''a.jpg''], d)] \<and>
   find_media_files [Dir ''sub'' [File ''a.jpg'' d]] False = []"
  by (simp add: find_media_files_def rglob_def iterdir_def List.map_filter_def is_media_def
      path_name_def suffix_def lower_def char_lower_def media_extensions_def)

section \<open>The renaming loop\<close>

subsection \<open>One step of the loop\<close>




lemma entry_name_set_name [simp]: "entry_name (set_name n e) = n"
  by (cases e) simp_all

lemma set_name_set_name [simp]: "set_name n (set_name m e) = set_name n e"
  by (cases e) simp_all







lemma length_enumerate1 [simp]: "length (enumerate1 xs) = length xs"
  by (simp add: enumerate1_def del: upt_Suc)



subsection \<open>Counting the files of the groups\<close>






subsection \<open>The whole run\<close>

lemma run_missing:
  "rename_media_in_directory L None dry_run recursive =
     \<lparr>directory_after = None, total_files = 0, total_renamed = 0, printed_lines = []\<rparr>"
  by (simp add: rename_media_in_directory_def)







text \<open>
  The guard is what protects the files: \<open>Path.rename\<close> by itself replaces an entry that
  already has the new name.
\<close>

lemma fs_rename_replaces:
  "fs_rename ''a.jpg'' ''b.jpg'' [File ''a.jpg'' d, File ''b.jpg'' d'] = [File ''b.jpg'' d]"
  by (simp add: fs_rename_def)

subsection \<open>Dry runs\<close>







section \<open>Grouping and sequencing\<close>

subsection \<open>Grouping\<close>










subsection \<open>Sorting and numbering\<close>




lemma enumerate1_nth:
  "j < length xs \<Longrightarrow> enumerate1 xs ! j = (Suc j, xs ! j)"
  by (simp add: enumerate1_def del: upt_Suc)

subsection \<open>What the run prints\<close>






lemma enumerate1_sort_key:
  "enumerate1 (sort_key r fs) = zip [1 ..< Suc (length fs)] (sort_key r fs)"
  by (simp add: enumerate1_def del: upt_Suc)





section \<open>Collisions\<close>

text \<open>
  C4, as the code has it. When the target computed for the first file of a group already
  exists in the directory and is not the file itself, the loop body leaves the directory
  as it is (so the file keeps its name and the entry holding the target keeps its
  contents), counts no rename and reports the collision; it does not go on to number 2.
\<close>

theorem collision_skips_source:
  assumes "path_exists es (new_name_for date_str 1 nm)"
    and "nm \<noteq> new_name_for date_str 1 nm"
  shows "rename_one L dry_run date_str (1, ([nm], d), t) (es, n, printed) =
     (es, n, printed @ [(nm, new_name_for date_str 1 nm, TargetExists)])"
  using assms by (simp add: rename_one_def path_name_def Let_def)

theorem collision_skips_source_witness:
  "path_exists collision_dir (new_name_for ''2023-01-15'' 1 ''IMG_001.jpg'') \<and>
   ''IMG_001.jpg'' \<noteq> new_name_for ''2023-01-15'' 1 ''IMG_001.jpg'' \<and>
   rename_one sample_lib False ''2023-01-15''
     (1, ([''IMG_001.jpg''], sample_file ''2023:01:15 08:00:00''), (2023, 1, 15, 8, 0, 0, 0))
     (collision_dir, 0, []) =
   (collision_dir, 0, [(''IMG_001.jpg'', ''2023-01-15 - Phone Photos (1).jpg'', TargetExists)])"
proof -
  have t: "new_name_for ''2023-01-15'' 1 ''IMG_001.jpg'' = ''2023-01-15 - Phone Photos (1).jpg''"
    by (simp add: new_name_for_def suffix_def lower_def char_lower_def video_extensions_def
        str_nat.simps)
  have e: "path_exists collision_dir (new_name_for ''2023-01-15'' 1 ''IMG_001.jpg'')"
    unfolding t by (simp add: path_exists_def collision_dir_def)
  have n: "''IMG_001.jpg'' \<noteq> new_name_for ''2023-01-15'' 1 ''IMG_001.jpg''"
    unfolding t by simp
  show ?thesis
    using e n collision_skips_source [OF e n, of sample_lib False
        "sample_file ''2023:01:15 08:00:00''" "(2023, 1, 15, 8, 0, 0, 0)" 0 "[]"]
    unfolding t by simp
qed

text \<open>
  The whole run on the scenario: the source stays \<open>IMG_001.jpg\<close>, no file numbered 2
  appears, and the file that held the target name is itself renamed for its own day.
\<close>

theorem collision_source_not_renumbered:
  "rename_media_in_directory sample_lib (Some collision_dir) False False =
     \<lparr>directory_after = Some
        [File ''IMG_001.jpg'' (sample_file ''2023:01:15 08:00:00''),
         File ''2023-02-01 - Phone Photos (1).jpg'' (sample_file ''2023:02:01 09:00:00'')],
      total_files = 2, total_renamed = 1,
      printed_lines =
        [(''2023-01-15'', [(''IMG_001.jpg'', ''2023-01-15 - Phone Photos (1).jpg'', TargetExists)]),
         (''2023-02-01'', [(''2023-01-15 - Phone Photos (1).jpg'',
                            ''2023-02-01 - Phone Photos (1).jpg'', Renamed)])]\<rparr>"
  by code_simp

section \<open>Running twice\<close>

subsection \<open>The run as one list of steps\<close>





subsection \<open>A run without skips renames every file to its target\<close>

lemma set_name_entry_name [simp]: "set_name (entry_name e) e = e"
  by (cases e) simp_all

lemma rename_to_same [simp]: "(if entry_name e = t then set_name t e else e) = e"
  by (cases e) auto



subsection \<open>The steps of a run, from the discovered files\<close>








subsection \<open>The same files under new names\<close>







subsection \<open>Discovery before and after the renames\<close>








subsection \<open>The second run\<close>







end
